theory Spec2Isabelle
  imports Complex_Main "HOL-Library.Word"
begin

unbundle bit_operations_syntax

section \<open>Numbers\<close>

text \<open>
  The metrics of \<^verbatim>\<open>V_PyramidMetric.cpp\<close> compute with C++ \<^verbatim>\<open>double\<close>.  The
  embedding idealises them: a finite double is a \<^typ>\<open>real\<close>, and addition, subtraction,
  multiplication, square root and division by a non-zero number are exact (no rounding,
  no overflow, no underflow).  What is kept of IEEE arithmetic is the behaviour of a
  division whose divisor is zero: it does not trap, it yields an infinity or a NaN, that
  value flows on through later operations, and every ordered comparison with a NaN is
  false.  A value that comes out of a division by a variable therefore has the type
  \<open>dbl\<close> below; a value computed without such a division is a plain \<^typ>\<open>real\<close>.
\<close>

datatype dbl = Fin real | PInf | MInf | NaN

text \<open>
  Division \<^verbatim>\<open>a / b\<close>.  A zero divisor is taken as \<^verbatim>\<open>+0\<close>: every divisor of the
  source that can be zero is a square root of a sum of squares, or a product of such.
\<close>

fun ddiv :: "dbl \<Rightarrow> dbl \<Rightarrow> dbl" where
  "ddiv NaN b = NaN"
| "ddiv a NaN = NaN"
| "ddiv (Fin a) (Fin b) =
     (if b \<noteq> 0 then Fin (a / b)
      else if a = 0 then NaN
      else if 0 < a then PInf else MInf)"
| "ddiv (Fin a) PInf = Fin 0"
| "ddiv (Fin a) MInf = Fin 0"
| "ddiv PInf (Fin b) = (if 0 \<le> b then PInf else MInf)"
| "ddiv MInf (Fin b) = (if 0 \<le> b then MInf else PInf)"
| "ddiv PInf PInf = NaN"
| "ddiv PInf MInf = NaN"
| "ddiv MInf PInf = NaN"
| "ddiv MInf MInf = NaN"

text \<open>Multiplication \<^verbatim>\<open>a * b\<close>: an infinity times zero is a NaN.\<close>

fun dmul :: "dbl \<Rightarrow> dbl \<Rightarrow> dbl" where
  "dmul NaN b = NaN"
| "dmul a NaN = NaN"
| "dmul (Fin a) (Fin b) = Fin (a * b)"
| "dmul (Fin a) PInf = (if a = 0 then NaN else if 0 < a then PInf else MInf)"
| "dmul (Fin a) MInf = (if a = 0 then NaN else if 0 < a then MInf else PInf)"
| "dmul PInf (Fin b) = (if b = 0 then NaN else if 0 < b then PInf else MInf)"
| "dmul MInf (Fin b) = (if b = 0 then NaN else if 0 < b then MInf else PInf)"
| "dmul PInf PInf = PInf"
| "dmul PInf MInf = MInf"
| "dmul MInf PInf = MInf"
| "dmul MInf MInf = PInf"

text \<open>The comparisons \<^verbatim>\<open>a < b\<close> and \<^verbatim>\<open>a <= b\<close>: false as soon as one side is a NaN.\<close>

fun dless :: "dbl \<Rightarrow> dbl \<Rightarrow> bool" where
  "dless NaN b = False"
| "dless a NaN = False"
| "dless (Fin a) (Fin b) = (a < b)"
| "dless (Fin a) PInf = True"
| "dless (Fin a) MInf = False"
| "dless PInf b = False"
| "dless MInf (Fin b) = True"
| "dless MInf PInf = True"
| "dless MInf MInf = False"

fun dle :: "dbl \<Rightarrow> dbl \<Rightarrow> bool" where
  "dle NaN b = False"
| "dle a NaN = False"
| "dle (Fin a) (Fin b) = (a \<le> b)"
| "dle (Fin a) PInf = True"
| "dle (Fin a) MInf = False"
| "dle PInf (Fin b) = False"
| "dle PInf PInf = True"
| "dle PInf MInf = False"
| "dle MInf b = True"

section \<open>VerdictVector.hpp\<close>

text \<open>The class \<^verbatim>\<open>VerdictVector\<close> has three private members.\<close>

record VerdictVector =
  xVal :: real
  yVal :: real
  zVal :: real

text \<open>A \<^verbatim>\<open>double[3]\<close>, and \<^verbatim>\<open>p[i]\<close> on it.\<close>

type_synonym point = "real \<times> real \<times> real"

fun crd :: "point \<Rightarrow> nat \<Rightarrow> real" where
  "crd (a, b, c) i = (if i = 0 then a else if i = 1 then b else c)"

text \<open>\<^verbatim>\<open>VerdictVector(const double x, const double y, const double z)\<close> and
  \<^verbatim>\<open>set(xv, yv, zv)\<close> on a fresh vector.\<close>

definition set_xyz :: "real \<Rightarrow> real \<Rightarrow> real \<Rightarrow> VerdictVector" where
  "set_xyz xv yv zv = \<lparr>xVal = xv, yVal = yv, zVal = zv\<rparr>"

text \<open>
  Modelled from the spec: the constructor \<^verbatim>\<open>VerdictVector(const double xyz[3])\<close> is
  declared in \<^verbatim>\<open>VerdictVector.hpp\<close>, but its body is not among the sources.  The spec
  describes it as the construction of a vector from raw coordinates; it is taken to store
  the three numbers as the inline \<^verbatim>\<open>set(const double xyz[3])\<close> of the header does.
\<close>

definition from_xyz :: "point \<Rightarrow> VerdictVector" where
  "from_xyz xyz = set_xyz (crd xyz 0) (crd xyz 1) (crd xyz 2)"

text \<open>\<^verbatim>\<open>operator+\<close> and \<^verbatim>\<open>operator-\<close> on two vectors.\<close>

definition operator_plus :: "VerdictVector \<Rightarrow> VerdictVector \<Rightarrow> VerdictVector" where
  "operator_plus vector1 vector2 =
     (let xv = xVal vector1 + xVal vector2;
          yv = yVal vector1 + yVal vector2;
          zv = zVal vector1 + zVal vector2
      in set_xyz xv yv zv)"

definition operator_minus :: "VerdictVector \<Rightarrow> VerdictVector \<Rightarrow> VerdictVector" where
  "operator_minus vector1 vector2 =
     (let xv = xVal vector1 - xVal vector2;
          yv = yVal vector1 - yVal vector2;
          zv = zVal vector1 - zVal vector2
      in set_xyz xv yv zv)"

text \<open>\<^verbatim>\<open>operator*=(const VerdictVector&)\<close>, the cross product in place, and
  \<^verbatim>\<open>operator*\<close>, which applies it to a copy of its first argument.\<close>

definition operator_times_assign :: "VerdictVector \<Rightarrow> VerdictVector \<Rightarrow> VerdictVector" where
  "operator_times_assign this vector =
     (let xcross = yVal this * zVal vector - zVal this * yVal vector;
          ycross = zVal this * xVal vector - xVal this * zVal vector;
          zcross = xVal this * yVal vector - yVal this * xVal vector
      in this\<lparr>xVal := xcross, yVal := ycross, zVal := zcross\<rparr>)"

definition operator_times :: "VerdictVector \<Rightarrow> VerdictVector \<Rightarrow> VerdictVector" where
  "operator_times vector1 vector2 = operator_times_assign vector1 vector2"

text \<open>\<^verbatim>\<open>operator/=(const double scalar)\<close> starts with \<^verbatim>\<open>assert (scalar != 0)\<close>:
  \<open>None\<close> is the failed assertion.  \<^verbatim>\<open>operator/\<close> applies it to a copy.\<close>

definition operator_divide_assign :: "VerdictVector \<Rightarrow> real \<Rightarrow> VerdictVector option" where
  "operator_divide_assign this scalar =
     (if scalar = 0 then None
      else Some (this\<lparr>xVal := xVal this / scalar,
                      yVal := yVal this / scalar,
                      zVal := zVal this / scalar\<rparr>))"

definition operator_divide :: "VerdictVector \<Rightarrow> real \<Rightarrow> VerdictVector option" where
  "operator_divide vector1 scalar = operator_divide_assign vector1 scalar"

text \<open>\<^verbatim>\<open>Dot\<close> and \<^verbatim>\<open>operator%\<close>.\<close>

definition Dot :: "VerdictVector \<Rightarrow> VerdictVector \<Rightarrow> real" where
  "Dot vector1 vector2 =
     xVal vector1 * xVal vector2 + yVal vector1 * yVal vector2 + zVal vector1 * zVal vector2"

definition operator_percent :: "VerdictVector \<Rightarrow> VerdictVector \<Rightarrow> real" where
  "operator_percent vector1 vector2 = Dot vector1 vector2"

text \<open>\<^verbatim>\<open>length_squared()\<close> and \<^verbatim>\<open>length()\<close>.\<close>

definition length_squared :: "VerdictVector \<Rightarrow> real" where
  "length_squared v = xVal v * xVal v + yVal v * yVal v + zVal v * zVal v"

definition length_vec :: "VerdictVector \<Rightarrow> real" where
  "length_vec v = sqrt (xVal v * xVal v + yVal v * yVal v + zVal v * zVal v)"

section \<open>What the sources do not contain\<close>

text \<open>
  \<^verbatim>\<open>verdict.h\<close> and \<^verbatim>\<open>verdict_defines.hpp\<close> are not among the sources.  The
  constants and the two metrics of other elements that the pyramid metrics take from
  them are parameters of the embedding: the floor \<^verbatim>\<open>VERDICT_DBL_MIN\<close> and the ceiling
  \<^verbatim>\<open>VERDICT_DBL_MAX\<close>, the tetrahedron Jacobian \<^verbatim>\<open>v_tet_jacobian\<close>, the shape of a
  quadrilateral \<^verbatim>\<open>v_quad_shape\<close> (both called with a node count and a coordinate array,
  both returning a finite number), and the four request flags of
  \<^verbatim>\<open>v_pyramid_quality\<close>, which are tested against an \<^verbatim>\<open>unsigned int\<close>.
\<close>

record externals =
  VERDICT_DBL_MIN :: real
  VERDICT_DBL_MAX :: real
  v_tet_jacobian :: "int \<Rightarrow> point list \<Rightarrow> real"
  v_quad_shape :: "int \<Rightarrow> point list \<Rightarrow> real"
  V_PYRAMID_VOLUME :: "32 word"
  V_PYRAMID_JACOBIAN :: "32 word"
  V_PYRAMID_SCALED_JACOBIAN :: "32 word"
  V_PYRAMID_SHAPE :: "32 word"

text \<open>
  Modelled from the spec: the macros \<^verbatim>\<open>VERDICT_MIN\<close> and \<^verbatim>\<open>VERDICT_MAX\<close> of
  \<^verbatim>\<open>verdict_defines.hpp\<close> are missing.  The spec reads them as the minimum and the
  maximum of their two arguments; they are written here as the comparison and selection
  that such a macro expands to, on finite numbers and on the results of divisions.
\<close>

definition VERDICT_MIN :: "real \<Rightarrow> real \<Rightarrow> real" where
  "VERDICT_MIN a b = (if a < b then a else b)"

definition VERDICT_MAX :: "real \<Rightarrow> real \<Rightarrow> real" where
  "VERDICT_MAX a b = (if a > b then a else b)"

definition VERDICT_MIN_dbl :: "dbl \<Rightarrow> dbl \<Rightarrow> dbl" where
  "VERDICT_MIN_dbl a b = (if dless a b then a else b)"

text \<open>
  The struct \<^verbatim>\<open>PyramidMetricVals\<close> is declared in \<^verbatim>\<open>verdict.h\<close> as well; these are
  the members that \<^verbatim>\<open>v_pyramid_quality\<close> assigns.
\<close>

record PyramidMetricVals =
  volume :: dbl
  jacobian :: dbl
  scaled_jacobian :: dbl
  shape :: dbl

section \<open>V_PyramidMetric.cpp: volume\<close>

text \<open>
  \<^verbatim>\<open>double coordinates[][3]\<close> is a list of points.  \<^verbatim>\<open>coordinates[i]\<close> is
  \<open>coordinates ! i\<close>: reading past the end of the array is undefined in C++ and
  unspecified here, so the statements below about a pyramid give all five points.
\<close>

definition v_pyramid_volume :: "int \<Rightarrow> point list \<Rightarrow> real" where
  "v_pyramid_volume num_nodes coordinates =
     (let volume = 0 in
      if num_nodes = 5 then
        let side1 = set_xyz (crd (coordinates ! 1) 0 - crd (coordinates ! 0) 0)
                            (crd (coordinates ! 1) 1 - crd (coordinates ! 0) 1)
                            (crd (coordinates ! 1) 2 - crd (coordinates ! 0) 2);
            side2 = set_xyz (crd (coordinates ! 3) 0 - crd (coordinates ! 0) 0)
                            (crd (coordinates ! 3) 1 - crd (coordinates ! 0) 1)
                            (crd (coordinates ! 3) 2 - crd (coordinates ! 0) 2);
            side3 = set_xyz (crd (coordinates ! 4) 0 - crd (coordinates ! 0) 0)
                            (crd (coordinates ! 4) 1 - crd (coordinates ! 0) 1)
                            (crd (coordinates ! 4) 2 - crd (coordinates ! 0) 2);
            volume = operator_percent side3 (operator_times side1 side2) / 6;
            side1 = set_xyz (crd (coordinates ! 3) 0 - crd (coordinates ! 2) 0)
                            (crd (coordinates ! 3) 1 - crd (coordinates ! 2) 1)
                            (crd (coordinates ! 3) 2 - crd (coordinates ! 2) 2);
            side2 = set_xyz (crd (coordinates ! 1) 0 - crd (coordinates ! 2) 0)
                            (crd (coordinates ! 1) 1 - crd (coordinates ! 2) 1)
                            (crd (coordinates ! 1) 2 - crd (coordinates ! 2) 2);
            side3 = set_xyz (crd (coordinates ! 4) 0 - crd (coordinates ! 2) 0)
                            (crd (coordinates ! 4) 1 - crd (coordinates ! 2) 1)
                            (crd (coordinates ! 4) 2 - crd (coordinates ! 2) 2);
            volume = volume + operator_percent side3 (operator_times side1 side2) / 6
        in volume
      else volume)"

section \<open>V_PyramidMetric.cpp: the decompositions\<close>

text \<open>The three assignments \<^verbatim>\<open>t[r][0] = coordinates[i][0]\<close>, \<^verbatim>\<open>t[r][1] = ...\<close>,
  \<^verbatim>\<open>t[r][2] = ...\<close> that copy one point.\<close>

definition copy3 :: "point \<Rightarrow> point" where
  "copy3 p = (crd p 0, crd p 1, crd p 2)"

definition v_make_pyramid_tets ::
  "point list \<Rightarrow> point list \<times> point list \<times> point list \<times> point list" where
  "v_make_pyramid_tets coordinates =
     (let tet1_coords = [copy3 (coordinates ! 0), copy3 (coordinates ! 1),
                         copy3 (coordinates ! 2), copy3 (coordinates ! 4)];
          tet2_coords = [copy3 (coordinates ! 0), copy3 (coordinates ! 2),
                         copy3 (coordinates ! 3), copy3 (coordinates ! 4)];
          tet3_coords = [copy3 (coordinates ! 0), copy3 (coordinates ! 1),
                         copy3 (coordinates ! 3), copy3 (coordinates ! 4)];
          tet4_coords = [copy3 (coordinates ! 1), copy3 (coordinates ! 2),
                         copy3 (coordinates ! 3), copy3 (coordinates ! 4)]
      in (tet1_coords, tet2_coords, tet3_coords, tet4_coords))"

definition v_make_pyramid_faces ::
  "point list \<Rightarrow> point list \<times> point list \<times> point list \<times> point list \<times> point list" where
  "v_make_pyramid_faces coordinates =
     (let base = [copy3 (coordinates ! 0), copy3 (coordinates ! 1),
                  copy3 (coordinates ! 2), copy3 (coordinates ! 3)];
          tri1 = [copy3 (coordinates ! 0), copy3 (coordinates ! 1), copy3 (coordinates ! 4)];
          tri2 = [copy3 (coordinates ! 1), copy3 (coordinates ! 2), copy3 (coordinates ! 4)];
          tri3 = [copy3 (coordinates ! 2), copy3 (coordinates ! 3), copy3 (coordinates ! 4)];
          tri4 = [copy3 (coordinates ! 3), copy3 (coordinates ! 0), copy3 (coordinates ! 4)]
      in (base, tri1, tri2, tri3, tri4))"

text \<open>\<^verbatim>\<open>edges[k].set(head - tail)\<close>, component by component, for one edge.\<close>

definition edge_from_to :: "point list \<Rightarrow> nat \<Rightarrow> nat \<Rightarrow> VerdictVector" where
  "edge_from_to coordinates t h =
     set_xyz (crd (coordinates ! h) 0 - crd (coordinates ! t) 0)
             (crd (coordinates ! h) 1 - crd (coordinates ! t) 1)
             (crd (coordinates ! h) 2 - crd (coordinates ! t) 2)"

definition v_make_pyramid_edges :: "point list \<Rightarrow> VerdictVector list" where
  "v_make_pyramid_edges coordinates =
     [edge_from_to coordinates 0 1,
      edge_from_to coordinates 1 2,
      edge_from_to coordinates 2 3,
      edge_from_to coordinates 3 0,
      edge_from_to coordinates 0 4,
      edge_from_to coordinates 1 4,
      edge_from_to coordinates 2 4,
      edge_from_to coordinates 3 4]"

section \<open>V_PyramidMetric.cpp: Jacobian and scaled Jacobian\<close>

definition v_pyramid_jacobian :: "externals \<Rightarrow> int \<Rightarrow> point list \<Rightarrow> real" where
  "v_pyramid_jacobian ext num_nodes coordinates =
     (case v_make_pyramid_tets coordinates of
        (tet1_coords, tet2_coords, tet3_coords, tet4_coords) \<Rightarrow>
          let j1 = v_tet_jacobian ext 4 tet1_coords;
              j2 = v_tet_jacobian ext 4 tet2_coords;
              j3 = v_tet_jacobian ext 4 tet3_coords;
              j4 = v_tet_jacobian ext 4 tet4_coords;
              p1 = (if j1 < j2 then j1 else j2);
              p2 = (if j3 < j4 then j3 else j4)
          in if p1 < p2 then p1 else p2)"

text \<open>The array \<^verbatim>\<open>length[8]\<close> of \<^verbatim>\<open>v_pyramid_scaled_jacobian\<close>.\<close>

definition edge_lengths :: "point list \<Rightarrow> real list" where
  "edge_lengths coordinates =
     (let edges = v_make_pyramid_edges coordinates
      in [length_vec (edges ! 0), length_vec (edges ! 1), length_vec (edges ! 2),
          length_vec (edges ! 3), length_vec (edges ! 4), length_vec (edges ! 5),
          length_vec (edges ! 6), length_vec (edges ! 7)])"

definition v_pyramid_scaled_jacobian :: "externals \<Rightarrow> int \<Rightarrow> point list \<Rightarrow> dbl" where
  "v_pyramid_scaled_jacobian ext num_nodes coordinates =
     (case v_make_pyramid_tets coordinates of
        (tet1_coords, tet2_coords, tet3_coords, tet4_coords) \<Rightarrow>
          let min_scaled_jac = Fin (VERDICT_DBL_MAX ext);
              j1 = v_tet_jacobian ext 4 tet1_coords;
              j2 = v_tet_jacobian ext 4 tet2_coords;
              j3 = v_tet_jacobian ext 4 tet3_coords;
              j4 = v_tet_jacobian ext 4 tet4_coords;
              len = edge_lengths coordinates
          in if len ! 0 < VERDICT_DBL_MIN ext \<or>
                len ! 1 < VERDICT_DBL_MIN ext \<or>
                len ! 2 < VERDICT_DBL_MIN ext \<or>
                len ! 3 < VERDICT_DBL_MIN ext \<or>
                len ! 4 < VERDICT_DBL_MIN ext \<or>
                len ! 5 < VERDICT_DBL_MIN ext \<or>
                len ! 6 < VERDICT_DBL_MIN ext \<or>
                len ! 7 < VERDICT_DBL_MIN ext
             then Fin 0
             else
               let factor = sqrt 2 / 2;
                   scaled_jac = ddiv (Fin j1) (Fin (len ! 0 * len ! 1 * len ! 5 * factor));
                   min_scaled_jac = VERDICT_MIN_dbl scaled_jac min_scaled_jac;
                   scaled_jac = ddiv (Fin j2) (Fin (len ! 2 * len ! 3 * len ! 7 * factor));
                   min_scaled_jac = VERDICT_MIN_dbl scaled_jac min_scaled_jac;
                   scaled_jac = ddiv (Fin j3) (Fin (len ! 0 * len ! 3 * len ! 4 * factor));
                   min_scaled_jac = VERDICT_MIN_dbl scaled_jac min_scaled_jac;
                   scaled_jac = ddiv (Fin j4) (Fin (len ! 1 * len ! 2 * len ! 6 * factor));
                   min_scaled_jac = VERDICT_MIN_dbl scaled_jac min_scaled_jac
               in min_scaled_jac)"

text \<open>
  The same body once more, for the question whether a division can meet a divisor that is
  not positive.  Here a division is a partial operation: it has the assertion
  \<^verbatim>\<open>divisor > 0\<close> in front of it, and a failed assertion ends the run with \<open>None\<close>.
  The statements are kept in program order, so a division that came before the test of the
  edge lengths, or without it, would fail on a collapsed edge.
\<close>

definition divide_asserting :: "real \<Rightarrow> real \<Rightarrow> real option" where
  "divide_asserting a b = (if 0 < b then Some (a / b) else None)"

definition v_pyramid_scaled_jacobian_asserting :: "externals \<Rightarrow> int \<Rightarrow> point list \<Rightarrow> real option" where
  "v_pyramid_scaled_jacobian_asserting ext num_nodes coordinates =
     (case v_make_pyramid_tets coordinates of
        (tet1_coords, tet2_coords, tet3_coords, tet4_coords) \<Rightarrow>
          let min_scaled_jac = VERDICT_DBL_MAX ext;
              j1 = v_tet_jacobian ext 4 tet1_coords;
              j2 = v_tet_jacobian ext 4 tet2_coords;
              j3 = v_tet_jacobian ext 4 tet3_coords;
              j4 = v_tet_jacobian ext 4 tet4_coords;
              len = edge_lengths coordinates
          in if len ! 0 < VERDICT_DBL_MIN ext \<or>
                len ! 1 < VERDICT_DBL_MIN ext \<or>
                len ! 2 < VERDICT_DBL_MIN ext \<or>
                len ! 3 < VERDICT_DBL_MIN ext \<or>
                len ! 4 < VERDICT_DBL_MIN ext \<or>
                len ! 5 < VERDICT_DBL_MIN ext \<or>
                len ! 6 < VERDICT_DBL_MIN ext \<or>
                len ! 7 < VERDICT_DBL_MIN ext
             then Some 0
             else
               let factor = sqrt 2 / 2 in
               (case divide_asserting j1 (len ! 0 * len ! 1 * len ! 5 * factor) of
                  None \<Rightarrow> None
                | Some scaled_jac \<Rightarrow>
                    let min_scaled_jac = VERDICT_MIN scaled_jac min_scaled_jac in
                    (case divide_asserting j2 (len ! 2 * len ! 3 * len ! 7 * factor) of
                       None \<Rightarrow> None
                     | Some scaled_jac \<Rightarrow>
                         let min_scaled_jac = VERDICT_MIN scaled_jac min_scaled_jac in
                         (case divide_asserting j3 (len ! 0 * len ! 3 * len ! 4 * factor) of
                            None \<Rightarrow> None
                          | Some scaled_jac \<Rightarrow>
                              let min_scaled_jac = VERDICT_MIN scaled_jac min_scaled_jac in
                              (case divide_asserting j4 (len ! 1 * len ! 2 * len ! 6 * factor) of
                                 None \<Rightarrow> None
                               | Some scaled_jac \<Rightarrow>
                                   let min_scaled_jac = VERDICT_MIN scaled_jac min_scaled_jac
                                   in Some min_scaled_jac)))))"

section \<open>V_PyramidMetric.cpp: shape\<close>

definition v_largest_pyramid_edge :: "point list \<Rightarrow> real" where
  "v_largest_pyramid_edge coordinates =
     (let edges = v_make_pyramid_edges coordinates;
          l0 = length_squared (edges ! 0);
          l1 = length_squared (edges ! 1);
          l2 = length_squared (edges ! 2);
          l3 = length_squared (edges ! 3);
          l4 = length_squared (edges ! 4);
          l5 = length_squared (edges ! 5);
          l6 = length_squared (edges ! 6);
          l7 = length_squared (edges ! 7);
          mx = VERDICT_MIN l0 l1;
          mx = VERDICT_MAX mx l2;
          mx = VERDICT_MAX mx l3;
          mx = VERDICT_MAX mx l4;
          mx = VERDICT_MAX mx l5;
          mx = VERDICT_MAX mx l6;
          mx = VERDICT_MAX mx l7
      in sqrt mx)"

text \<open>
  \<^verbatim>\<open>v_distance_point_to_pyramid_base\<close> returns the distance and writes the cosine
  through its reference parameter: the result is the pair of both, or \<open>None\<close> when the
  assertion of the vector division fails.  Its sums, products and square roots are the
  exact ones of this embedding, where the source rounds; the claims about the shape metric
  are therefore stated of the pair that this function returns, not of the geometry.
\<close>

definition v_distance_point_to_pyramid_base :: "int \<Rightarrow> point list \<Rightarrow> (dbl \<times> dbl) option" where
  "v_distance_point_to_pyramid_base num_nodes coordinates =
     (let a = from_xyz (coordinates ! 0);
          b = from_xyz (coordinates ! 1);
          c = from_xyz (coordinates ! 2);
          d = from_xyz (coordinates ! 3);
          peak = from_xyz (coordinates ! 4)
      in case operator_divide (operator_plus (operator_plus (operator_plus a b) c) d) 4 of
           None \<Rightarrow> None
         | Some centroid \<Rightarrow>
             let t1 = operator_minus b a;
                 t2 = operator_minus d a;
                 normal = operator_times t1 t2;
                 normal_length = length_vec normal;
                 pq = operator_minus peak centroid;
                 distance = ddiv (Fin (operator_percent pq normal)) (Fin normal_length);
                 cos_angle = ddiv distance (Fin (length_vec pq))
             in Some (distance, cos_angle))"

definition v_pyramid_shape :: "externals \<Rightarrow> int \<Rightarrow> point list \<Rightarrow> dbl option" where
  "v_pyramid_shape ext num_nodes coordinates =
     (let SQRT2_HALVES = sqrt 2 / 2 in
      case v_make_pyramid_faces coordinates of
        (base, tri1, tri2, tri3, tri4) \<Rightarrow>
          let s1 = v_quad_shape ext 4 base
          in if s1 = 0 then Some (Fin 0)
             else
               (case v_distance_point_to_pyramid_base num_nodes coordinates of
                  None \<Rightarrow> None
                | Some (dist_to_base, cos_angle) \<Rightarrow>
                    if dle dist_to_base (Fin 0) \<or> dle cos_angle (Fin 0) then Some (Fin 0)
                    else
                      let longest_edge = v_largest_pyramid_edge coordinates * SQRT2_HALVES;
                          dist_to_base =
                            (if dless dist_to_base (Fin longest_edge)
                             then ddiv dist_to_base (Fin longest_edge)
                             else ddiv (Fin longest_edge) dist_to_base);
                          shape = dmul (dmul (Fin s1) cos_angle) dist_to_base
                      in Some shape))"

section \<open>V_PyramidMetric.cpp: the dispatch\<close>

text \<open>\<^verbatim>\<open>memset(metric_vals, 0, sizeof(PyramidMetricVals))\<close>: every member becomes
  \<^verbatim>\<open>0.0\<close>, whatever the struct held.\<close>

definition memset_zero :: "PyramidMetricVals \<Rightarrow> PyramidMetricVals" where
  "memset_zero metric_vals =
     metric_vals\<lparr>volume := Fin 0, jacobian := Fin 0, scaled_jacobian := Fin 0, shape := Fin 0\<rparr>"

text \<open>
  \<^verbatim>\<open>v_pyramid_quality\<close> works on the caller's struct: the model takes the struct as
  it is at the call and returns it as it is at the return, or \<open>None\<close> when the shape
  metric stopped at the assertion.
\<close>

definition v_pyramid_quality ::
  "externals \<Rightarrow> int \<Rightarrow> point list \<Rightarrow> 32 word \<Rightarrow> PyramidMetricVals \<Rightarrow> PyramidMetricVals option" where
  "v_pyramid_quality ext num_nodes coordinates metrics_request_flag metric_vals =
     (let metric_vals = memset_zero metric_vals in
      if metrics_request_flag AND V_PYRAMID_VOLUME ext \<noteq> 0 then
        Some (metric_vals\<lparr>volume := Fin (v_pyramid_volume num_nodes coordinates)\<rparr>)
      else if metrics_request_flag AND V_PYRAMID_JACOBIAN ext \<noteq> 0 then
        Some (metric_vals\<lparr>jacobian := Fin (v_pyramid_jacobian ext num_nodes coordinates)\<rparr>)
      else if metrics_request_flag AND V_PYRAMID_SCALED_JACOBIAN ext \<noteq> 0 then
        Some (metric_vals\<lparr>scaled_jacobian := v_pyramid_scaled_jacobian ext num_nodes coordinates\<rparr>)
      else if metrics_request_flag AND V_PYRAMID_SHAPE ext \<noteq> 0 then
        (case v_pyramid_shape ext num_nodes coordinates of
           None \<Rightarrow> None
         | Some s \<Rightarrow> Some (metric_vals\<lparr>shape := s\<rparr>))
      else Some metric_vals)"

section \<open>The vocabulary of the specification\<close>

text \<open>
  The definitions of this section are not translations of source functions.  They write
  down, on plain points, the notions in which the specification describes the metrics, so
  that the theorems can compare the code with them.
\<close>

text \<open>The vector from \<open>p\<close> to \<open>q\<close>, and the scalar triple product
  \<open>a \<cdot> (b \<times> c)\<close>, which is the determinant of the three vectors.\<close>

definition spec_edge_vector :: "point \<Rightarrow> point \<Rightarrow> point" where
  "spec_edge_vector p q =
     (case (p, q) of ((p1, p2, p3), (q1, q2, q3)) \<Rightarrow> (q1 - p1, q2 - p2, q3 - p3))"

definition spec_triple_product :: "point \<Rightarrow> point \<Rightarrow> point \<Rightarrow> real" where
  "spec_triple_product a b c =
     (case (a, b, c) of ((a1, a2, a3), (b1, b2, b3), (c1, c2, c3)) \<Rightarrow>
        a1 * (b2 * c3 - b3 * c2) + a2 * (b3 * c1 - b1 * c3) + a3 * (b1 * c2 - b2 * c1))"

text \<open>The signed volume of the tetrahedron \<open>(p, q, r, s)\<close>: one sixth of the triple
  product of the three edge vectors that leave \<open>p\<close>.\<close>

definition spec_tet_volume :: "point \<Rightarrow> point \<Rightarrow> point \<Rightarrow> point \<Rightarrow> real" where
  "spec_tet_volume p q r s =
     spec_triple_product (spec_edge_vector p q) (spec_edge_vector p r) (spec_edge_vector p s) / 6"

text \<open>The distance of two points, the eight edges of the pyramid as pairs of vertex
  numbers (edge \<open>k\<close> is the \<open>k\<close>-th pair), and the length of edge \<open>k\<close>.\<close>

definition point_dist :: "point \<Rightarrow> point \<Rightarrow> real" where
  "point_dist p q =
     (case (p, q) of ((p1, p2, p3), (q1, q2, q3)) \<Rightarrow>
        sqrt ((q1 - p1)\<^sup>2 + (q2 - p2)\<^sup>2 + (q3 - p3)\<^sup>2))"

definition pyramid_edge_ends :: "(nat \<times> nat) list" where
  "pyramid_edge_ends = [(0, 1), (1, 2), (2, 3), (3, 0), (0, 4), (1, 4), (2, 4), (3, 4)]"

definition spec_edge_length :: "point list \<Rightarrow> nat \<Rightarrow> real" where
  "spec_edge_length c k =
     (case pyramid_edge_ends ! k of (t, h) \<Rightarrow> point_dist (c ! t) (c ! h))"

text \<open>An edge shorter than the floor.\<close>

definition degenerate_edge :: "externals \<Rightarrow> point list \<Rightarrow> bool" where
  "degenerate_edge ext c \<longleftrightarrow>
     (\<exists>(t, h) \<in> set pyramid_edge_ends. point_dist (c ! t) (c ! h) < VERDICT_DBL_MIN ext)"

text \<open>
  The normalised Jacobian of one corner: the Jacobian of the tetrahedron on the vertices
  \<open>corner\<close>, divided by the product of the lengths of the edges \<open>es\<close> scaled by
  \<open>\<surd>2 / 2\<close>.  The scaled Jacobian of the specification is the least of the four.
\<close>

definition spec_corner_ratio :: "externals \<Rightarrow> point list \<Rightarrow> nat list \<Rightarrow> nat list \<Rightarrow> real" where
  "spec_corner_ratio ext c corner es =
     v_tet_jacobian ext 4 (map (nth c) corner) /
       (prod_list (map (spec_edge_length c) es) * (sqrt 2 / 2))"

definition spec_scaled_jacobian :: "externals \<Rightarrow> point list \<Rightarrow> real" where
  "spec_scaled_jacobian ext c =
     Min {spec_corner_ratio ext c [0, 1, 2, 4] [0, 1, 5],
          spec_corner_ratio ext c [0, 2, 3, 4] [2, 3, 7],
          spec_corner_ratio ext c [0, 1, 3, 4] [0, 3, 4],
          spec_corner_ratio ext c [1, 2, 3, 4] [1, 2, 6]}"

text \<open>
  The four normalisations of \<^verbatim>\<open>v_pyramid_scaled_jacobian\<close>, each as the pair of its
  dividend and its divisor; a name for the proofs.
\<close>

definition corner_divisions :: "externals \<Rightarrow> point list \<Rightarrow> (real \<times> real) list" where
  "corner_divisions ext coordinates =
     (case v_make_pyramid_tets coordinates of
        (tet1_coords, tet2_coords, tet3_coords, tet4_coords) \<Rightarrow>
          let j1 = v_tet_jacobian ext 4 tet1_coords;
              j2 = v_tet_jacobian ext 4 tet2_coords;
              j3 = v_tet_jacobian ext 4 tet3_coords;
              j4 = v_tet_jacobian ext 4 tet4_coords;
              len = edge_lengths coordinates;
              factor = sqrt 2 / 2
          in [(j1, len ! 0 * len ! 1 * len ! 5 * factor),
              (j2, len ! 2 * len ! 3 * len ! 7 * factor),
              (j3, len ! 0 * len ! 3 * len ! 4 * factor),
              (j4, len ! 1 * len ! 2 * len ! 6 * factor)])"

text \<open>
  For the shape metric: the normal of the base as the code takes it, the cross product of
  the base edges \<open>v0 \<rightarrow> v1\<close> and \<open>v0 \<rightarrow> v3\<close>; the offset of the apex from the centroid of
  the four base vertices; the dot product and the Euclidean norm.
\<close>

definition spec_base_normal :: "point \<Rightarrow> point \<Rightarrow> point \<Rightarrow> point" where
  "spec_base_normal v0 v1 v3 =
     (case (v0, v1, v3) of ((x0, y0, z0), (x1, y1, z1), (x3, y3, z3)) \<Rightarrow>
        ((y1 - y0) * (z3 - z0) - (z1 - z0) * (y3 - y0),
         (z1 - z0) * (x3 - x0) - (x1 - x0) * (z3 - z0),
         (x1 - x0) * (y3 - y0) - (y1 - y0) * (x3 - x0)))"

definition spec_apex_offset :: "point \<Rightarrow> point \<Rightarrow> point \<Rightarrow> point \<Rightarrow> point \<Rightarrow> point" where
  "spec_apex_offset v0 v1 v2 v3 v4 =
     (case (v0, v1, v2, v3, v4) of
        ((x0, y0, z0), (x1, y1, z1), (x2, y2, z2), (x3, y3, z3), (x4, y4, z4)) \<Rightarrow>
        (x4 - (x0 + x1 + x2 + x3) / 4,
         y4 - (y0 + y1 + y2 + y3) / 4,
         z4 - (z0 + z1 + z2 + z3) / 4))"

definition spec_dot :: "point \<Rightarrow> point \<Rightarrow> real" where
  "spec_dot a b = (case (a, b) of ((a1, a2, a3), (b1, b2, b3)) \<Rightarrow> a1 * b1 + a2 * b2 + a3 * b3)"

definition spec_norm :: "point \<Rightarrow> real" where
  "spec_norm a = sqrt (spec_dot a a)"

section \<open>Example inputs\<close>

text \<open>
  An instance of the parameters, for the examples: the floor \<open>1 / 10 ^ 30\<close> and the
  ceiling \<open>10 ^ 30\<close>, the triple product of the edges at the first vertex as tetrahedron Jacobian,
  a quadrilateral shape that is constantly 1, and the flags 1, 2, 4 and 8.
\<close>

definition example_externals :: externals where
  "example_externals =
     \<lparr>VERDICT_DBL_MIN = 1 / 10 ^ 30,
      VERDICT_DBL_MAX = 10 ^ 30,
      v_tet_jacobian = (\<lambda>n t. spec_triple_product (spec_edge_vector (t ! 0) (t ! 1))
                                 (spec_edge_vector (t ! 0) (t ! 2)) (spec_edge_vector (t ! 0) (t ! 3))),
      v_quad_shape = (\<lambda>n q. 1),
      V_PYRAMID_VOLUME = 1,
      V_PYRAMID_JACOBIAN = 2,
      V_PYRAMID_SCALED_JACOBIAN = 4,
      V_PYRAMID_SHAPE = 8\<rparr>"


text \<open>The pyramid of the specification's end-to-end scenario: unit square base, apex
  above the centre at height \<open>1 / \<surd>2\<close>.\<close>

definition scenario_pyramid :: "point list" where
  "scenario_pyramid = [(0, 0, 0), (1, 0, 0), (1, 1, 0), (0, 1, 0), (1 / 2, 1 / 2, 1 / sqrt 2)]"

text \<open>A pyramid with rational edge lengths: base 2 by 4, apex above the centre at height
  2, so that the base edges have the lengths 2 and 4 and the lateral edges the length 3.\<close>

definition rational_pyramid :: "point list" where
  "rational_pyramid = [(0, 0, 0), (2, 0, 0), (2, 4, 0), (0, 4, 0), (1, 2, 2)]"



text \<open>A pyramid whose first two vertices coincide.\<close>

definition collapsed_pyramid :: "point list" where
  "collapsed_pyramid = [(0, 0, 0), (0, 0, 0), (1, 1, 0), (0, 1, 0), (0, 0, 1)]"



text \<open>A pyramid on a trapezoid whose longest edge is edge 0, of length 6; the other
  edges have the squared lengths 5, 4, 5, 25, 25, 18 and 18.\<close>

definition trapezoid_pyramid :: "point list" where
  "trapezoid_pyramid = [(0, 0, 0), (6, 0, 0), (4, 1, 0), (2, 1, 0), (3, 0, 4)]"

section \<open>Volume\<close>

lemma copy3_id [simp]: "copy3 p = p"
  by (cases p) (simp add: copy3_def)

lemma volume_two_tets:
  "v_pyramid_volume 5 [v0, v1, v2, v3, v4] =
     spec_tet_volume v0 v1 v3 v4 + spec_tet_volume v2 v3 v1 v4"
  by (cases v0; cases v1; cases v2; cases v3; cases v4)
     (simp add: v_pyramid_volume_def spec_tet_volume_def spec_triple_product_def
        spec_edge_vector_def set_xyz_def operator_percent_def Dot_def operator_times_def
        operator_times_assign_def Let_def algebra_simps)

lemma volume_other_count: "n \<noteq> 5 \<Longrightarrow> v_pyramid_volume n c = 0"
  by (simp add: v_pyramid_volume_def)

text \<open>
  Claim C6.  \<^verbatim>\<open>v_pyramid_volume\<close> returns 0 whenever \<^verbatim>\<open>num_nodes\<close> is not 5.  With
  \<^verbatim>\<open>num_nodes = 5\<close> and the vertices \<open>v0, \<dots>, v4\<close> it returns the sum of the signed
  volumes of the tetrahedra \<open>(v0, v1, v3, v4)\<close> and \<open>(v2, v3, v1, v4)\<close>, each one sixth of
  the triple product of the three edge vectors that leave its first vertex.
\<close>

theorem volume_is_sum_of_two_tetrahedra:
  "(num_nodes \<noteq> 5 \<longrightarrow> v_pyramid_volume num_nodes coordinates = 0) \<and>
   v_pyramid_volume 5 [v0, v1, v2, v3, v4] =
     spec_tet_volume v0 v1 v3 v4 + spec_tet_volume v2 v3 v1 v4"
  using volume_other_count [of num_nodes coordinates] volume_two_tets [of v0 v1 v2 v3 v4]
  by blast

theorem volume_is_sum_of_two_tetrahedra_witness:
  "(4::int) \<noteq> 5 \<and> v_pyramid_volume 4 rational_pyramid = 0 \<and>
   v_pyramid_volume 5 [(0, 0, 0), (2, 0, 0), (2, 4, 0), (0, 4, 0), (1, 2, 2)] =
     spec_tet_volume (0, 0, 0) (2, 0, 0) (0, 4, 0) (1, 2, 2) +
     spec_tet_volume (2, 4, 0) (0, 4, 0) (2, 0, 0) (1, 2, 2)"
  using volume_is_sum_of_two_tetrahedra
    [of 4 rational_pyramid "(0, 0, 0)" "(2, 0, 0)" "(2, 4, 0)" "(0, 4, 0)" "(1, 2, 2)"]
  by simp

section \<open>Jacobian\<close>

text \<open>
  Claim C7.  For the vertices \<open>v0, \<dots>, v4\<close>, \<^verbatim>\<open>v_pyramid_jacobian\<close> returns the least of
  the four values that the tetrahedron Jacobian gives, called with the node count 4, on
  \<open>(v0, v1, v2, v4)\<close>, \<open>(v0, v2, v3, v4)\<close>, \<open>(v0, v1, v3, v4)\<close> and \<open>(v1, v2, v3, v4)\<close>,
  in these vertex orders.
\<close>

theorem jacobian_is_min_of_four_tetrahedra:
  "v_pyramid_jacobian ext num_nodes [v0, v1, v2, v3, v4] =
     Min {v_tet_jacobian ext 4 [v0, v1, v2, v4],
          v_tet_jacobian ext 4 [v0, v2, v3, v4],
          v_tet_jacobian ext 4 [v0, v1, v3, v4],
          v_tet_jacobian ext 4 [v1, v2, v3, v4]}"
  by (simp add: v_pyramid_jacobian_def v_make_pyramid_tets_def Let_def min_def)

section \<open>Scaled Jacobian\<close>

lemma length_edge_from_to:
  "length_vec (edge_from_to c t h) = point_dist (c ! t) (c ! h)"
  by (cases "c ! t"; cases "c ! h")
     (simp add: edge_from_to_def length_vec_def set_xyz_def point_dist_def power2_eq_square)

lemma edge_lengths_points:
  "edge_lengths c = map (\<lambda>(t, h). point_dist (c ! t) (c ! h)) pyramid_edge_ends"
  by (simp add: edge_lengths_def v_make_pyramid_edges_def Let_def length_edge_from_to
      pyramid_edge_ends_def)

lemma VERDICT_MIN_dbl_Fin [simp]: "VERDICT_MIN_dbl (Fin a) (Fin b) = Fin (min a b)"
  by (simp add: VERDICT_MIN_dbl_def min_def)

lemma point_dist_nonneg [simp]: "0 \<le> point_dist p q"
  by (cases p; cases q) (simp add: point_dist_def)

lemma guard_degenerate:
  "(edge_lengths c ! 0 < VERDICT_DBL_MIN ext \<or>
    edge_lengths c ! 1 < VERDICT_DBL_MIN ext \<or>
    edge_lengths c ! 2 < VERDICT_DBL_MIN ext \<or>
    edge_lengths c ! 3 < VERDICT_DBL_MIN ext \<or>
    edge_lengths c ! 4 < VERDICT_DBL_MIN ext \<or>
    edge_lengths c ! 5 < VERDICT_DBL_MIN ext \<or>
    edge_lengths c ! 6 < VERDICT_DBL_MIN ext \<or>
    edge_lengths c ! 7 < VERDICT_DBL_MIN ext) = degenerate_edge ext c"
  by (simp add: degenerate_edge_def edge_lengths_points pyramid_edge_ends_def)

lemma corner_divisions_length: "length (corner_divisions ext c) = 4"
  by (simp add: corner_divisions_def v_make_pyramid_tets_def Let_def)

lemma scaled_jacobian_unfold:
  "v_pyramid_scaled_jacobian ext n c =
     (if degenerate_edge ext c then Fin 0
      else fold (\<lambda>(j, d). VERDICT_MIN_dbl (ddiv (Fin j) (Fin d))) (corner_divisions ext c)
             (Fin (VERDICT_DBL_MAX ext)))"
  by (simp only: v_pyramid_scaled_jacobian_def corner_divisions_def v_make_pyramid_tets_def
      Let_def prod.case guard_degenerate fold_simps id_apply comp_apply)

lemma corner_divisions_spec:
  "corner_divisions ext c =
     [(v_tet_jacobian ext 4 [c ! 0, c ! 1, c ! 2, c ! 4],
         spec_edge_length c 0 * spec_edge_length c 1 * spec_edge_length c 5 * (sqrt 2 / 2)),
      (v_tet_jacobian ext 4 [c ! 0, c ! 2, c ! 3, c ! 4],
         spec_edge_length c 2 * spec_edge_length c 3 * spec_edge_length c 7 * (sqrt 2 / 2)),
      (v_tet_jacobian ext 4 [c ! 0, c ! 1, c ! 3, c ! 4],
         spec_edge_length c 0 * spec_edge_length c 3 * spec_edge_length c 4 * (sqrt 2 / 2)),
      (v_tet_jacobian ext 4 [c ! 1, c ! 2, c ! 3, c ! 4],
         spec_edge_length c 1 * spec_edge_length c 2 * spec_edge_length c 6 * (sqrt 2 / 2))]"
  by (simp add: corner_divisions_def v_make_pyramid_tets_def Let_def edge_lengths_points
      spec_edge_length_def pyramid_edge_ends_def)

lemma edge_length_positive:
  assumes "0 < VERDICT_DBL_MIN ext" and "\<not> degenerate_edge ext c" and "k < 8"
  shows "0 < spec_edge_length c k"
proof -
  have "pyramid_edge_ends ! k \<in> set pyramid_edge_ends"
    using assms(3) by (intro nth_mem) (simp add: pyramid_edge_ends_def)
  then have "\<not> spec_edge_length c k < VERDICT_DBL_MIN ext"
    using assms(2) unfolding degenerate_edge_def spec_edge_length_def by (auto split: prod.splits)
  with assms(1) show ?thesis by linarith
qed

lemma ddiv_Fin_nonzero: "d \<noteq> 0 \<Longrightarrow> ddiv (Fin j) (Fin d) = Fin (j / d)"
  by simp

lemma divisor_positive:
  fixes a b c :: real
  shows "0 < a \<Longrightarrow> 0 < b \<Longrightarrow> 0 < c \<Longrightarrow> 0 < a * b * c * (sqrt 2 / 2)"
  by simp

lemma min_chain:
  fixes a b c d M :: real
  assumes "Min {a, b, c, d} \<le> M"
  shows "min d (min c (min b (min a M))) = Min {a, b, c, d}"
proof -
  have "Min {a, b, c, d} = min a (min b (min c d))" by simp
  with assms show ?thesis by linarith
qed

lemma ratio_division:
  fixes a b c :: real
  assumes "0 < a" and "0 < b" and "0 < c"
  shows "ddiv (Fin j) (Fin (a * b * c * (sqrt 2 / 2))) = Fin (j / (a * b * c * (sqrt 2 / 2)))"
proof -
  have "a * b * c * (sqrt 2 / 2) \<noteq> 0"
    using divisor_positive [OF assms] by linarith
  then show ?thesis by (rule ddiv_Fin_nonzero)
qed

lemma spec_corner_ratio_unfold:
  "spec_corner_ratio ext c [i0, i1, i2, i3] [e1, e2, e3] =
     v_tet_jacobian ext 4 [c ! i0, c ! i1, c ! i2, c ! i3] /
       (spec_edge_length c e1 * spec_edge_length c e2 * spec_edge_length c e3 * (sqrt 2 / 2))"
  by (simp add: spec_corner_ratio_def mult.assoc)

lemma scaled_jacobian_spec:
  assumes "0 < VERDICT_DBL_MIN ext" and "\<not> degenerate_edge ext c"
    and "spec_scaled_jacobian ext c \<le> VERDICT_DBL_MAX ext"
  shows "v_pyramid_scaled_jacobian ext n c = Fin (spec_scaled_jacobian ext c)"
proof -
  define r1 where "r1 = spec_corner_ratio ext c [0, 1, 2, 4] [0, 1, 5]"
  define r2 where "r2 = spec_corner_ratio ext c [0, 2, 3, 4] [2, 3, 7]"
  define r3 where "r3 = spec_corner_ratio ext c [0, 1, 3, 4] [0, 3, 4]"
  define r4 where "r4 = spec_corner_ratio ext c [1, 2, 3, 4] [1, 2, 6]"
  note pos = edge_length_positive [OF assms(1,2)]
  have p: "0 < spec_edge_length c 0" "0 < spec_edge_length c 1" "0 < spec_edge_length c 2"
    "0 < spec_edge_length c 3" "0 < spec_edge_length c 4" "0 < spec_edge_length c 5"
    "0 < spec_edge_length c 6" "0 < spec_edge_length c 7"
    by (simp_all add: pos)
  have q: "map (\<lambda>(j, d). ddiv (Fin j) (Fin d)) (corner_divisions ext c)
             = [Fin r1, Fin r2, Fin r3, Fin r4]"
    unfolding corner_divisions_spec r1_def r2_def r3_def r4_def spec_corner_ratio_unfold
    by (simp only: list.map prod.case ratio_division p)
  have m: "spec_scaled_jacobian ext c = Min {r1, r2, r3, r4}"
    unfolding spec_scaled_jacobian_def r1_def r2_def r3_def r4_def by (rule refl)
  have "v_pyramid_scaled_jacobian ext n c =
      fold (\<lambda>(j, d). VERDICT_MIN_dbl (ddiv (Fin j) (Fin d))) (corner_divisions ext c)
        (Fin (VERDICT_DBL_MAX ext))"
    using assms(2) by (simp only: scaled_jacobian_unfold if_False)
  also have "\<dots> = fold VERDICT_MIN_dbl (map (\<lambda>(j, d). ddiv (Fin j) (Fin d)) (corner_divisions ext c))
        (Fin (VERDICT_DBL_MAX ext))"
    by (simp only: fold_map comp_def case_prod_unfold)
  also have "\<dots> = Fin (min r4 (min r3 (min r2 (min r1 (VERDICT_DBL_MAX ext)))))"
    unfolding q by (simp only: fold_simps VERDICT_MIN_dbl_Fin comp_apply id_apply)
  also have "\<dots> = Fin (Min {r1, r2, r3, r4})"
    using assms(3) min_chain [of r1 r2 r3 r4 "VERDICT_DBL_MAX ext"] unfolding m by (simp only:)
  finally show ?thesis unfolding m .
qed

lemma VERDICT_MIN_eq: "VERDICT_MIN a b = min a b"
  by (simp add: VERDICT_MIN_def min_def)

lemma VERDICT_MAX_eq: "VERDICT_MAX a b = max a b"
  by (simp add: VERDICT_MAX_def max_def)

lemma edge_lengths_nth:
  "edge_lengths c ! 0 = spec_edge_length c 0"
  "edge_lengths c ! 1 = spec_edge_length c 1"
  "edge_lengths c ! 2 = spec_edge_length c 2"
  "edge_lengths c ! 3 = spec_edge_length c 3"
  "edge_lengths c ! 4 = spec_edge_length c 4"
  "edge_lengths c ! 5 = spec_edge_length c 5"
  "edge_lengths c ! 6 = spec_edge_length c 6"
  "edge_lengths c ! 7 = spec_edge_length c 7"
  by (simp_all add: edge_lengths_points spec_edge_length_def pyramid_edge_ends_def)

lemma ratio_division_asserting:
  fixes a b c :: real
  assumes "0 < a" and "0 < b" and "0 < c"
  shows "divide_asserting j (a * b * c * (sqrt 2 / 2)) = Some (j / (a * b * c * (sqrt 2 / 2)))"
  using divisor_positive [OF assms] by (simp only: divide_asserting_def if_True)

lemma asserting_degenerate:
  "degenerate_edge ext c \<Longrightarrow> v_pyramid_scaled_jacobian_asserting ext n c = Some 0"
  by (simp only: v_pyramid_scaled_jacobian_asserting_def v_make_pyramid_tets_def Let_def prod.case
      guard_degenerate if_True)

lemma asserting_value:
  assumes "0 < VERDICT_DBL_MIN ext" and "\<not> degenerate_edge ext c"
  shows "v_pyramid_scaled_jacobian_asserting ext n c =
           Some (min (spec_corner_ratio ext c [1, 2, 3, 4] [1, 2, 6])
                (min (spec_corner_ratio ext c [0, 1, 3, 4] [0, 3, 4])
                (min (spec_corner_ratio ext c [0, 2, 3, 4] [2, 3, 7])
                (min (spec_corner_ratio ext c [0, 1, 2, 4] [0, 1, 5]) (VERDICT_DBL_MAX ext)))))"
proof -
  note pos = edge_length_positive [OF assms]
  have p: "0 < spec_edge_length c 0" "0 < spec_edge_length c 1" "0 < spec_edge_length c 2"
    "0 < spec_edge_length c 3" "0 < spec_edge_length c 4" "0 < spec_edge_length c 5"
    "0 < spec_edge_length c 6" "0 < spec_edge_length c 7"
    by (simp_all add: pos)
  show ?thesis
    unfolding v_pyramid_scaled_jacobian_asserting_def v_make_pyramid_tets_def Let_def prod.case
      guard_degenerate
    using assms(2)
    by (simp only: if_False edge_lengths_nth ratio_division_asserting p option.case
        VERDICT_MIN_eq spec_corner_ratio_unfold copy3_id)
qed

lemma scaled_jacobian_value:
  assumes "0 < VERDICT_DBL_MIN ext" and "\<not> degenerate_edge ext c"
  shows "v_pyramid_scaled_jacobian ext n c =
           Fin (min (spec_corner_ratio ext c [1, 2, 3, 4] [1, 2, 6])
               (min (spec_corner_ratio ext c [0, 1, 3, 4] [0, 3, 4])
               (min (spec_corner_ratio ext c [0, 2, 3, 4] [2, 3, 7])
               (min (spec_corner_ratio ext c [0, 1, 2, 4] [0, 1, 5]) (VERDICT_DBL_MAX ext)))))"
proof -
  note pos = edge_length_positive [OF assms]
  have p: "0 < spec_edge_length c 0" "0 < spec_edge_length c 1" "0 < spec_edge_length c 2"
    "0 < spec_edge_length c 3" "0 < spec_edge_length c 4" "0 < spec_edge_length c 5"
    "0 < spec_edge_length c 6" "0 < spec_edge_length c 7"
    by (simp_all add: pos)
  show ?thesis
    unfolding v_pyramid_scaled_jacobian_def v_make_pyramid_tets_def Let_def prod.case
      guard_degenerate
    using assms(2)
    by (simp only: if_False edge_lengths_nth ratio_division p VERDICT_MIN_dbl_Fin
        spec_corner_ratio_unfold copy3_id)
qed

text \<open>
  Claim C8.  For the vertices \<open>v0, \<dots>, v4\<close>: when one of the eight edges (the base edges
  \<open>0 \<rightarrow> 1\<close>, \<open>1 \<rightarrow> 2\<close>, \<open>2 \<rightarrow> 3\<close>, \<open>3 \<rightarrow> 0\<close> and the lateral edges \<open>0 \<rightarrow> 4\<close>,
  \<open>1 \<rightarrow> 4\<close>, \<open>2 \<rightarrow> 4\<close>, \<open>3 \<rightarrow> 4\<close>) is shorter than the floor \<^verbatim>\<open>VERDICT_DBL_MIN\<close>,
  \<^verbatim>\<open>v_pyramid_scaled_jacobian\<close> returns 0.  The run in which every division asserts a
  positive divisor returns 0 as well, also when the short edge has the length 0: the
  function has met no division when it returns.
\<close>

theorem scaled_jacobian_zero_on_short_edge:
  assumes "\<exists>(t, h) \<in> set pyramid_edge_ends.
             point_dist ([v0, v1, v2, v3, v4] ! t) ([v0, v1, v2, v3, v4] ! h) < VERDICT_DBL_MIN ext"
  shows "v_pyramid_scaled_jacobian ext num_nodes [v0, v1, v2, v3, v4] = Fin 0 \<and>
         v_pyramid_scaled_jacobian_asserting ext num_nodes [v0, v1, v2, v3, v4] = Some 0"
proof -
  have d: "degenerate_edge ext [v0, v1, v2, v3, v4]"
    using assms by (simp only: degenerate_edge_def)
  then have "v_pyramid_scaled_jacobian ext num_nodes [v0, v1, v2, v3, v4] = Fin 0"
    by (simp only: scaled_jacobian_unfold if_True)
  with d show ?thesis by (simp only: asserting_degenerate simp_thms)
qed

lemma sqrt_9 [simp]: "sqrt 9 = 3"
  using real_sqrt_abs [of 3] by simp

lemma sqrt_16 [simp]: "sqrt 16 = 4"
  using real_sqrt_abs [of 4] by simp

lemma collapsed_degenerate: "degenerate_edge example_externals collapsed_pyramid"
  by (simp add: degenerate_edge_def pyramid_edge_ends_def collapsed_pyramid_def point_dist_def
      example_externals_def)

theorem scaled_jacobian_zero_on_short_edge_witness:
  "degenerate_edge example_externals collapsed_pyramid \<and>
   v_pyramid_scaled_jacobian example_externals 5 collapsed_pyramid = Fin 0 \<and>
   v_pyramid_scaled_jacobian_asserting example_externals 5 collapsed_pyramid = Some 0"
  using collapsed_degenerate
    scaled_jacobian_zero_on_short_edge [of "(0, 0, 0)" "(0, 0, 0)" "(1, 1, 0)" "(0, 1, 0)" "(0, 0, 1)"
      example_externals 5]
  by (simp add: degenerate_edge_def collapsed_pyramid_def)

lemma rational_edge_lengths [simp]:
  "spec_edge_length rational_pyramid 0 = 2"
  "spec_edge_length rational_pyramid (Suc 0) = 4"
  "spec_edge_length rational_pyramid 2 = 2"
  "spec_edge_length rational_pyramid 3 = 4"
  "spec_edge_length rational_pyramid 4 = 3"
  "spec_edge_length rational_pyramid 5 = 3"
  "spec_edge_length rational_pyramid 6 = 3"
  "spec_edge_length rational_pyramid 7 = 3"
  by (simp_all add: spec_edge_length_def pyramid_edge_ends_def rational_pyramid_def point_dist_def)

lemma rational_not_degenerate: "\<not> degenerate_edge example_externals rational_pyramid"
  by (simp add: degenerate_edge_def pyramid_edge_ends_def rational_pyramid_def point_dist_def
      example_externals_def)

lemma rational_jacobians [simp]:
  "v_tet_jacobian example_externals 4
     [rational_pyramid ! 0, rational_pyramid ! Suc 0, rational_pyramid ! 2, rational_pyramid ! 4] = 16"
  "v_tet_jacobian example_externals 4
     [rational_pyramid ! 0, rational_pyramid ! 2, rational_pyramid ! 3, rational_pyramid ! 4] = 16"
  "v_tet_jacobian example_externals 4
     [rational_pyramid ! 0, rational_pyramid ! Suc 0, rational_pyramid ! 3, rational_pyramid ! 4] = 16"
  "v_tet_jacobian example_externals 4
     [rational_pyramid ! Suc 0, rational_pyramid ! 2, rational_pyramid ! 3, rational_pyramid ! 4] = 16"
  by (simp_all add: example_externals_def rational_pyramid_def spec_triple_product_def
      spec_edge_vector_def)

lemma four_over_sqrt2: "4 / sqrt 2 = 2 * sqrt 2"
  by (simp add: field_simps)

lemma rational_ratios:
  "spec_corner_ratio example_externals rational_pyramid [0, 1, 2, 4] [0, 1, 5] = 2 * sqrt 2 / 3"
  "spec_corner_ratio example_externals rational_pyramid [0, 2, 3, 4] [2, 3, 7] = 2 * sqrt 2 / 3"
  "spec_corner_ratio example_externals rational_pyramid [0, 1, 3, 4] [0, 3, 4] = 2 * sqrt 2 / 3"
  "spec_corner_ratio example_externals rational_pyramid [1, 2, 3, 4] [1, 2, 6] = 2 * sqrt 2 / 3"
  by (simp_all add: spec_corner_ratio_def four_over_sqrt2)

lemma rational_spec_value: "spec_scaled_jacobian example_externals rational_pyramid = 2 * sqrt 2 / 3"
  unfolding spec_scaled_jacobian_def rational_ratios by simp

lemma rational_below_ceiling:
  "spec_scaled_jacobian example_externals rational_pyramid \<le> VERDICT_DBL_MAX example_externals"
proof -
  have "sqrt 2 \<le> 2" by (rule real_le_lsqrt) simp_all
  moreover have "VERDICT_DBL_MAX example_externals = 10 ^ 30"
    by (simp add: example_externals_def)
  ultimately show ?thesis unfolding rational_spec_value by simp
qed

text \<open>
  Claim C1.  For the vertices \<open>v0, \<dots>, v4\<close>: when all eight edge lengths are at least
  the floor \<^verbatim>\<open>VERDICT_DBL_MIN\<close>, \<^verbatim>\<open>v_pyramid_scaled_jacobian\<close> returns the least of the
  four corner ratios, the ratio of a corner being the Jacobian of its tetrahedron divided by
  the product of its three edge lengths scaled by \<open>\<surd>2 / 2\<close>, with the edges \<open>{0, 1, 5}\<close>
  for \<open>(v0, v1, v2, v4)\<close>, \<open>{2, 3, 7}\<close> for \<open>(v0, v2, v3, v4)\<close>, \<open>{0, 3, 4}\<close> for
  \<open>(v0, v1, v3, v4)\<close> and \<open>{1, 2, 6}\<close> for \<open>(v1, v2, v3, v4)\<close>.  The floor is positive, and
  the ceiling \<^verbatim>\<open>VERDICT_DBL_MAX\<close>, with which the code starts its running minimum, is not
  below that least ratio.
\<close>

theorem scaled_jacobian_is_min_corner_ratio:
  assumes "0 < VERDICT_DBL_MIN ext"
    and "\<forall>(t, h) \<in> set pyramid_edge_ends.
           VERDICT_DBL_MIN ext \<le> point_dist ([v0, v1, v2, v3, v4] ! t) ([v0, v1, v2, v3, v4] ! h)"
    and "spec_scaled_jacobian ext [v0, v1, v2, v3, v4] \<le> VERDICT_DBL_MAX ext"
  shows "v_pyramid_scaled_jacobian ext num_nodes [v0, v1, v2, v3, v4] =
           Fin (spec_scaled_jacobian ext [v0, v1, v2, v3, v4])"
proof -
  have "\<not> degenerate_edge ext [v0, v1, v2, v3, v4]"
    using assms(2) unfolding degenerate_edge_def by (fastforce simp add: not_less)
  then show ?thesis using assms(1,3) by (intro scaled_jacobian_spec)
qed

theorem scaled_jacobian_is_min_corner_ratio_witness:
  "0 < VERDICT_DBL_MIN example_externals \<and>
   \<not> degenerate_edge example_externals rational_pyramid \<and>
   spec_scaled_jacobian example_externals rational_pyramid \<le> VERDICT_DBL_MAX example_externals \<and>
   v_pyramid_scaled_jacobian example_externals 5 rational_pyramid = Fin (2 * sqrt 2 / 3)"
proof -
  have a: "0 < VERDICT_DBL_MIN example_externals" by (simp add: example_externals_def)
  have b: "\<forall>(t, h) \<in> set pyramid_edge_ends.
      VERDICT_DBL_MIN example_externals \<le> point_dist (rational_pyramid ! t) (rational_pyramid ! h)"
    using rational_not_degenerate unfolding degenerate_edge_def by (fastforce simp add: not_less)
  show ?thesis
    using a rational_not_degenerate rational_below_ceiling
      scaled_jacobian_is_min_corner_ratio [of example_externals "(0, 0, 0)" "(2, 0, 0)" "(2, 4, 0)"
        "(0, 4, 0)" "(1, 2, 2)" 5, folded rational_pyramid_def, OF a b rational_below_ceiling]
    by (simp only: rational_spec_value simp_thms)
qed

text \<open>
  On the pyramid of the specification's scenario, with the triple product as tetrahedron
  Jacobian, all eight edges have the length 1 and the scaled Jacobian is 1, as the
  specification expects of it: the factor \<open>\<surd>2 / 2\<close> scales the product of the lengths,
  inside the divisor.
\<close>

lemma scenario_edge_lengths:
  "spec_edge_length scenario_pyramid 0 = 1"
  "spec_edge_length scenario_pyramid (Suc 0) = 1"
  "spec_edge_length scenario_pyramid 2 = 1"
  "spec_edge_length scenario_pyramid 3 = 1"
  "spec_edge_length scenario_pyramid 4 = 1"
  "spec_edge_length scenario_pyramid 5 = 1"
  "spec_edge_length scenario_pyramid 6 = 1"
  "spec_edge_length scenario_pyramid 7 = 1"
  by (simp_all add: spec_edge_length_def pyramid_edge_ends_def scenario_pyramid_def point_dist_def
      power_divide)

lemma scenario_not_degenerate: "\<not> degenerate_edge example_externals scenario_pyramid"
  by (simp add: degenerate_edge_def pyramid_edge_ends_def scenario_pyramid_def point_dist_def
      example_externals_def power_divide)

lemma scenario_jacobians:
  "v_tet_jacobian example_externals 4
     [scenario_pyramid ! 0, scenario_pyramid ! 1, scenario_pyramid ! 2, scenario_pyramid ! 4] = 1 / sqrt 2"
  "v_tet_jacobian example_externals 4
     [scenario_pyramid ! 0, scenario_pyramid ! 2, scenario_pyramid ! 3, scenario_pyramid ! 4] = 1 / sqrt 2"
  "v_tet_jacobian example_externals 4
     [scenario_pyramid ! 0, scenario_pyramid ! 1, scenario_pyramid ! 3, scenario_pyramid ! 4] = 1 / sqrt 2"
  "v_tet_jacobian example_externals 4
     [scenario_pyramid ! 1, scenario_pyramid ! 2, scenario_pyramid ! 3, scenario_pyramid ! 4] = 1 / sqrt 2"
  by (simp_all add: example_externals_def scenario_pyramid_def spec_triple_product_def
      spec_edge_vector_def)

lemma scenario_ratios:
  "spec_corner_ratio example_externals scenario_pyramid [0, 1, 2, 4] [0, 1, 5] = 1"
  "spec_corner_ratio example_externals scenario_pyramid [0, 2, 3, 4] [2, 3, 7] = 1"
  "spec_corner_ratio example_externals scenario_pyramid [0, 1, 3, 4] [0, 3, 4] = 1"
  "spec_corner_ratio example_externals scenario_pyramid [1, 2, 3, 4] [1, 2, 6] = 1"
  unfolding spec_corner_ratio_unfold scenario_jacobians
  using real_div_sqrt [of 2] by (simp_all add: scenario_edge_lengths field_simps)

lemma scenario_scaled_jacobian:
  "v_pyramid_scaled_jacobian example_externals 5 scenario_pyramid = Fin 1"
proof -
  have v: "spec_scaled_jacobian example_externals scenario_pyramid = 1"
    unfolding spec_scaled_jacobian_def scenario_ratios by simp
  have "VERDICT_DBL_MAX example_externals = 10 ^ 30" "0 < VERDICT_DBL_MIN example_externals"
    by (simp_all add: example_externals_def)
  then show ?thesis
    using scaled_jacobian_spec [of example_externals scenario_pyramid 5] scenario_not_degenerate
    unfolding v by simp
qed

text \<open>
  Claim C10.  \<^verbatim>\<open>v_pyramid_scaled_jacobian\<close> reaches its four normalising divisions only
  behind the test of the eight edge lengths against the floor, so that no division meets a
  divisor that is not strictly positive: for a positive floor \<^verbatim>\<open>VERDICT_DBL_MIN\<close>, the run
  in which every division asserts \<^verbatim>\<open>divisor > 0\<close> never fails, on any five vertices, and it
  returns the number that the function returns.  (Exact real arithmetic: the product of
  three lengths that are each at least the floor is positive.)
\<close>

theorem scaled_jacobian_divisions_never_fail:
  assumes "0 < VERDICT_DBL_MIN ext"
  shows "\<exists>r. v_pyramid_scaled_jacobian_asserting ext num_nodes [v0, v1, v2, v3, v4] = Some r \<and>
             v_pyramid_scaled_jacobian ext num_nodes [v0, v1, v2, v3, v4] = Fin r"
proof (cases "degenerate_edge ext [v0, v1, v2, v3, v4]")
  case True
  then have "v_pyramid_scaled_jacobian_asserting ext num_nodes [v0, v1, v2, v3, v4] = Some 0"
    and "v_pyramid_scaled_jacobian ext num_nodes [v0, v1, v2, v3, v4] = Fin 0"
    by (simp_all only: asserting_degenerate scaled_jacobian_unfold if_True)
  then show ?thesis by blast
next
  case False
  from asserting_value [OF assms False, of num_nodes] scaled_jacobian_value [OF assms False, of num_nodes]
  show ?thesis by blast
qed

theorem scaled_jacobian_divisions_never_fail_witness:
  "0 < VERDICT_DBL_MIN example_externals \<and>
   v_pyramid_scaled_jacobian_asserting example_externals 5 rational_pyramid = Some (2 * sqrt 2 / 3) \<and>
   v_pyramid_scaled_jacobian example_externals 5 rational_pyramid = Fin (2 * sqrt 2 / 3)"
proof -
  have a: "0 < VERDICT_DBL_MIN example_externals" by (simp add: example_externals_def)
  have v: "v_pyramid_scaled_jacobian example_externals 5 rational_pyramid = Fin (2 * sqrt 2 / 3)"
    using scaled_jacobian_spec [OF a rational_not_degenerate rational_below_ceiling, of 5]
    by (simp only: rational_spec_value)
  from scaled_jacobian_divisions_never_fail [of example_externals 5 "(0, 0, 0)" "(2, 0, 0)"
      "(2, 4, 0)" "(0, 4, 0)" "(1, 2, 2)", folded rational_pyramid_def, OF a]
  obtain r where "v_pyramid_scaled_jacobian_asserting example_externals 5 rational_pyramid = Some r"
    and "v_pyramid_scaled_jacobian example_externals 5 rational_pyramid = Fin r"
    by blast
  with a v show ?thesis by simp
qed

text \<open>
  The test is what keeps the divisions safe.  With a floor of 0 it lets the collapsed
  pyramid through, whose edge 0 has the length 0, and the first division fails; the
  function itself then computes \<^verbatim>\<open>0.0 / 0.0\<close>.
\<close>

lemma collapsed_lengths:
  "spec_edge_length collapsed_pyramid 0 = 0"
  by (simp add: spec_edge_length_def pyramid_edge_ends_def collapsed_pyramid_def point_dist_def)

lemma asserting_fails_without_floor:
  "v_pyramid_scaled_jacobian_asserting (example_externals\<lparr>VERDICT_DBL_MIN := 0\<rparr>) 5
     collapsed_pyramid = None"
proof -
  have "\<not> point_dist p q < 0" for p q
    using point_dist_nonneg [of p q] by linarith
  then have "\<not> degenerate_edge (example_externals\<lparr>VERDICT_DBL_MIN := 0\<rparr>) collapsed_pyramid"
    by (auto simp add: degenerate_edge_def)
  then show ?thesis
    unfolding v_pyramid_scaled_jacobian_asserting_def v_make_pyramid_tets_def Let_def prod.case
      guard_degenerate
    by (simp only: if_False edge_lengths_nth collapsed_lengths) (simp add: divide_asserting_def)
qed

section \<open>Shape\<close>

lemma spec_norm_nonneg [simp]: "0 \<le> spec_norm a"
  by (cases a) (simp add: spec_norm_def spec_dot_def)

lemma spec_norm_zero_iff: "spec_norm a = 0 \<longleftrightarrow> a = (0, 0, 0)"
proof (cases a)
  case (fields x y z)
  have "x * x + y * y + z * z = 0 \<longleftrightarrow> x * x + y * y = 0 \<and> z * z = 0"
    by (rule add_nonneg_eq_0_iff) simp_all
  then have "x * x + y * y + z * z = 0 \<longleftrightarrow> x = 0 \<and> y = 0 \<and> z = 0"
    by simp
  then show ?thesis by (simp add: fields spec_norm_def spec_dot_def)
qed

lemma spec_dot_zero_left [simp]: "spec_dot (0, 0, 0) b = 0"
  by (cases b) (simp add: spec_dot_def)

lemma distance_unfold:
  "v_distance_point_to_pyramid_base n [v0, v1, v2, v3, v4] =
     Some (ddiv (Fin (spec_dot (spec_apex_offset v0 v1 v2 v3 v4) (spec_base_normal v0 v1 v3)))
                (Fin (spec_norm (spec_base_normal v0 v1 v3))),
           ddiv (ddiv (Fin (spec_dot (spec_apex_offset v0 v1 v2 v3 v4) (spec_base_normal v0 v1 v3)))
                      (Fin (spec_norm (spec_base_normal v0 v1 v3))))
                (Fin (spec_norm (spec_apex_offset v0 v1 v2 v3 v4))))"
  by (cases v0; cases v1; cases v2; cases v3; cases v4)
     (simp add: v_distance_point_to_pyramid_base_def from_xyz_def set_xyz_def operator_plus_def
       operator_minus_def operator_divide_def operator_divide_assign_def operator_times_def
       operator_times_assign_def operator_percent_def Dot_def length_vec_def Let_def
       spec_dot_def spec_apex_offset_def spec_base_normal_def spec_norm_def add_divide_distrib)

lemma length_squared_nonneg [simp]: "0 \<le> length_squared v"
  by (simp add: length_squared_def)

lemma largest_edge_unfold:
  "v_largest_pyramid_edge c =
     (let e = v_make_pyramid_edges c in
      sqrt (max (max (max (max (max (max (min (length_squared (e ! 0)) (length_squared (e ! 1)))
        (length_squared (e ! 2))) (length_squared (e ! 3))) (length_squared (e ! 4)))
        (length_squared (e ! 5))) (length_squared (e ! 6))) (length_squared (e ! 7))))"
  by (simp only: v_largest_pyramid_edge_def Let_def VERDICT_MIN_eq VERDICT_MAX_eq)

lemma largest_edge_nonneg: "0 \<le> v_largest_pyramid_edge c"
  unfolding largest_edge_unfold Let_def
  by (intro real_sqrt_ge_zero max.coboundedI2 length_squared_nonneg)

lemma shape_unfold:
  "v_pyramid_shape ext n [v0, v1, v2, v3, v4] =
     (if v_quad_shape ext 4 [v0, v1, v2, v3] = 0 then Some (Fin 0)
      else case v_distance_point_to_pyramid_base n [v0, v1, v2, v3, v4] of
             None \<Rightarrow> None
           | Some (dist_to_base, cos_angle) \<Rightarrow>
               if dle dist_to_base (Fin 0) \<or> dle cos_angle (Fin 0) then Some (Fin 0)
               else Some (dmul (dmul (Fin (v_quad_shape ext 4 [v0, v1, v2, v3])) cos_angle)
                      (if dless dist_to_base (Fin (v_largest_pyramid_edge [v0, v1, v2, v3, v4] * (sqrt 2 / 2)))
                       then ddiv dist_to_base (Fin (v_largest_pyramid_edge [v0, v1, v2, v3, v4] * (sqrt 2 / 2)))
                       else ddiv (Fin (v_largest_pyramid_edge [v0, v1, v2, v3, v4] * (sqrt 2 / 2))) dist_to_base)))"
  by (simp add: v_pyramid_shape_def v_make_pyramid_faces_def Let_def split: option.splits prod.splits)

lemma shape_quad_zero:
  "v_quad_shape ext 4 [v0, v1, v2, v3] = 0 \<Longrightarrow> v_pyramid_shape ext n [v0, v1, v2, v3, v4] = Some (Fin 0)"
  by (simp add: shape_unfold)

lemma shape_guard:
  assumes "v_distance_point_to_pyramid_base n [v0, v1, v2, v3, v4] = Some (dist_to_base, cos_angle)"
    and "dle dist_to_base (Fin 0) \<or> dle cos_angle (Fin 0)"
  shows "v_pyramid_shape ext n [v0, v1, v2, v3, v4] = Some (Fin 0)"
  using assms by (simp add: shape_unfold del: dle.simps)

lemma distance_nonpositive:
  assumes "spec_base_normal v0 v1 v3 \<noteq> (0, 0, 0)"
    and "spec_dot (spec_apex_offset v0 v1 v2 v3 v4) (spec_base_normal v0 v1 v3) \<le> 0"
  shows "\<exists>d cs. v_distance_point_to_pyramid_base n [v0, v1, v2, v3, v4] = Some (d, cs) \<and> dle d (Fin 0)"
proof -
  have "0 < spec_norm (spec_base_normal v0 v1 v3)"
    using assms(1) spec_norm_zero_iff [of "spec_base_normal v0 v1 v3"]
      spec_norm_nonneg [of "spec_base_normal v0 v1 v3"] by linarith
  then show ?thesis using assms(2)
    by (simp add: distance_unfold divide_le_0_iff)
qed

lemma shape_apex_not_above:
  assumes "spec_base_normal v0 v1 v3 \<noteq> (0, 0, 0)"
    and "spec_dot (spec_apex_offset v0 v1 v2 v3 v4) (spec_base_normal v0 v1 v3) \<le> 0"
  shows "v_pyramid_shape ext n [v0, v1, v2, v3, v4] = Some (Fin 0)"
  using distance_nonpositive [OF assms, of n] shape_guard by blast

lemma shape_finite:
  assumes q0: "0 \<le> v_quad_shape ext 4 [v0, v1, v2, v3]"
    and qn: "v_quad_shape ext 4 [v0, v1, v2, v3] \<noteq> 0 \<longrightarrow> spec_base_normal v0 v1 v3 \<noteq> (0, 0, 0)"
  shows "\<exists>r. v_pyramid_shape ext n [v0, v1, v2, v3, v4] = Some (Fin r) \<and> 0 \<le> r"
proof (cases "v_quad_shape ext 4 [v0, v1, v2, v3] = 0")
  case True
  then show ?thesis by (simp add: shape_quad_zero)
next
  case False
  define s1 where "s1 = v_quad_shape ext 4 [v0, v1, v2, v3]"
  define D where "D = spec_dot (spec_apex_offset v0 v1 v2 v3 v4) (spec_base_normal v0 v1 v3)"
  define N where "N = spec_norm (spec_base_normal v0 v1 v3)"
  define P where "P = spec_norm (spec_apex_offset v0 v1 v2 v3 v4)"
  define L where "L = v_largest_pyramid_edge [v0, v1, v2, v3, v4] * (sqrt 2 / 2)"
  have s1: "0 < s1" using q0 False by (simp add: s1_def)
  have N: "0 < N"
    using qn False spec_norm_zero_iff [of "spec_base_normal v0 v1 v3"]
      spec_norm_nonneg [of "spec_base_normal v0 v1 v3"] unfolding N_def by linarith
  have L: "0 \<le> L" unfolding L_def using largest_edge_nonneg [of "[v0, v1, v2, v3, v4]"] by simp
  define d where "d = D / N"
  have dist: "v_distance_point_to_pyramid_base n [v0, v1, v2, v3, v4] =
      Some (Fin d, ddiv (Fin d) (Fin P))"
    using N by (simp add: distance_unfold D_def N_def P_def d_def)
  show ?thesis
  proof (cases "D \<le> 0")
    case True
    then have "dle (Fin d) (Fin 0)" using N by (simp add: divide_le_0_iff d_def)
    then show ?thesis using shape_guard [OF dist, of ext] by simp
  next
    case Dpos: False
    then have "spec_apex_offset v0 v1 v2 v3 v4 \<noteq> (0, 0, 0)"
      unfolding D_def by auto
    then have P: "0 < P"
      using spec_norm_zero_iff [of "spec_apex_offset v0 v1 v2 v3 v4"]
        spec_norm_nonneg [of "spec_apex_offset v0 v1 v2 v3 v4"] unfolding P_def by linarith
    have d: "0 < d" using Dpos N by (simp add: d_def)
    have cs: "ddiv (Fin d) (Fin P) = Fin (d / P)" using P by simp
    have cpos: "0 < d / P" using d P by (rule divide_pos_pos)
    define R where "R = (if d < L then d / L else L / d)"
    have R: "0 \<le> R" using d L by (simp add: R_def)
    have ratio: "(if dless (Fin d) (Fin L) then ddiv (Fin d) (Fin L)
                  else ddiv (Fin L) (Fin d)) = Fin R"
      using d L by (auto simp add: R_def)
    have "v_pyramid_shape ext n [v0, v1, v2, v3, v4] = Some (Fin (s1 * (d / P) * R))"
      using False d cpos
      by (simp only: shape_unfold dist cs option.case prod.case if_False dle.simps ratio [unfolded L_def]
          s1_def [symmetric] dmul.simps not_le [symmetric] simp_thms)
    moreover have "0 \<le> s1 * (d / P) * R"
      using s1 cpos R by (intro mult_nonneg_nonneg) simp_all
    ultimately show ?thesis by blast
  qed
qed

lemma spec_dot_zero_right [simp]: "spec_dot a (0, 0, 0) = 0"
  by (cases a) (simp add: spec_dot_def)























lemma sqrt_25 [simp]: "sqrt 25 = 5"
  using real_sqrt_abs [of 5] by simp

lemma sqrt_36 [simp]: "sqrt 36 = 6"
  using real_sqrt_abs [of 6] by simp

lemma trapezoid_squares:
  "length_squared (v_make_pyramid_edges trapezoid_pyramid ! 0) = 36"
  "length_squared (v_make_pyramid_edges trapezoid_pyramid ! 1) = 5"
  "length_squared (v_make_pyramid_edges trapezoid_pyramid ! 2) = 4"
  "length_squared (v_make_pyramid_edges trapezoid_pyramid ! 3) = 5"
  "length_squared (v_make_pyramid_edges trapezoid_pyramid ! 4) = 25"
  "length_squared (v_make_pyramid_edges trapezoid_pyramid ! 5) = 25"
  "length_squared (v_make_pyramid_edges trapezoid_pyramid ! 6) = 18"
  "length_squared (v_make_pyramid_edges trapezoid_pyramid ! 7) = 18"
  by (simp_all add: v_make_pyramid_edges_def edge_from_to_def set_xyz_def length_squared_def
      trapezoid_pyramid_def)

lemma trapezoid_lengths:
  "edge_lengths trapezoid_pyramid = [6, sqrt 5, 2, sqrt 5, 5, 5, sqrt 18, sqrt 18]"
  unfolding edge_lengths_def Let_def length_vec_def length_squared_def [symmetric] trapezoid_squares
  by simp

lemma trapezoid_largest: "v_largest_pyramid_edge trapezoid_pyramid = 5"
  unfolding largest_edge_unfold Let_def trapezoid_squares by simp

lemma trapezoid_max: "Max (set [6, sqrt 5, 2, sqrt 5, 5, 5, sqrt 18, sqrt 18]) = 6"
proof -
  have "sqrt 5 \<le> 6" "sqrt 18 \<le> 6"
    by (rule real_le_lsqrt; simp)+
  then show ?thesis by simp
qed

text \<open>
  Claim C2.  The claim is that \<^verbatim>\<open>v_largest_pyramid_edge\<close> returns the largest of the eight
  edge lengths.  The code starts its running maximum with \<^verbatim>\<open>VERDICT_MIN(l0, l1)\<close>, the
  smaller of the first two squared lengths, so the longer of the edges 0 and 1 is never
  taken into account.  On the trapezoid pyramid, whose edge 0 has the length 6 and is the
  longest edge, the function returns 5.
\<close>

theorem largest_edge_misses_edge_0:
  "v_largest_pyramid_edge trapezoid_pyramid = 5 \<and>
   Max (set (edge_lengths trapezoid_pyramid)) = 6"
  unfolding trapezoid_lengths using trapezoid_largest trapezoid_max by blast

section \<open>The volume of the scenario\<close>

lemma scenario_volume: "v_pyramid_volume 5 scenario_pyramid = sqrt 2 / 6"
proof -
  have "v_pyramid_volume 5 scenario_pyramid = (1 / sqrt 2) / 3"
    by (simp add: scenario_pyramid_def v_pyramid_volume_def set_xyz_def operator_percent_def Dot_def
        operator_times_def operator_times_assign_def Let_def)
  also have "\<dots> = sqrt 2 / 6"
    using real_div_sqrt [of 2] by (simp add: field_simps)
  finally show ?thesis .
qed

text \<open>
  Claim C4, as amended.  For \<^verbatim>\<open>num_nodes = 5\<close> and the vertices \<open>(0, 0, 0)\<close>, \<open>(1, 0, 0)\<close>,
  \<open>(1, 1, 0)\<close>, \<open>(0, 1, 0)\<close>, \<open>(1/2, 1/2, 1/\<surd>2)\<close>, \<^verbatim>\<open>v_pyramid_volume\<close> returns
  \<open>\<surd>2 / 6\<close>, a third of the base area 1 times the height \<open>1 / \<surd>2\<close>.
\<close>

theorem scenario_volume_value:
  "v_pyramid_volume 5 [(0, 0, 0), (1, 0, 0), (1, 1, 0), (0, 1, 0), (1 / 2, 1 / 2, 1 / sqrt 2)]
     = sqrt 2 / 6"
  using scenario_volume by (simp only: scenario_pyramid_def)

text \<open>
  Claim C4, as stated, says that the volume of this pyramid is \<open>1 / 3\<close>.  It is not.
\<close>

theorem scenario_volume_not_one_third:
  "v_pyramid_volume 5 [(0, 0, 0), (1, 0, 0), (1, 1, 0), (0, 1, 0), (1 / 2, 1 / 2, 1 / sqrt 2)]
     \<noteq> 1 / 3"
proof -
  have "sqrt 2 \<noteq> 2"
  proof
    assume "sqrt 2 = 2"
    then have "(sqrt 2)\<^sup>2 = 2\<^sup>2" by simp
    then show False by simp
  qed
  then show ?thesis
    using scenario_volume by (simp add: scenario_pyramid_def)
qed

section \<open>Dispatch\<close>

lemma memset_zero_all:
  "memset_zero (mv :: PyramidMetricVals) =
     \<lparr>volume = Fin 0, jacobian = Fin 0, scaled_jacobian = Fin 0, shape = Fin 0\<rparr>"
  by (simp add: memset_zero_def)

lemma quality_cases:
  "v_pyramid_quality ext n c flag mv =
     (if flag AND V_PYRAMID_VOLUME ext \<noteq> 0 then
        Some \<lparr>volume = Fin (v_pyramid_volume n c), jacobian = Fin 0,
              scaled_jacobian = Fin 0, shape = Fin 0\<rparr>
      else if flag AND V_PYRAMID_JACOBIAN ext \<noteq> 0 then
        Some \<lparr>volume = Fin 0, jacobian = Fin (v_pyramid_jacobian ext n c),
              scaled_jacobian = Fin 0, shape = Fin 0\<rparr>
      else if flag AND V_PYRAMID_SCALED_JACOBIAN ext \<noteq> 0 then
        Some \<lparr>volume = Fin 0, jacobian = Fin 0,
              scaled_jacobian = v_pyramid_scaled_jacobian ext n c, shape = Fin 0\<rparr>
      else if flag AND V_PYRAMID_SHAPE ext \<noteq> 0 then
        map_option (\<lambda>s. \<lparr>volume = Fin 0, jacobian = Fin 0, scaled_jacobian = Fin 0, shape = s\<rparr>)
          (v_pyramid_shape ext n c)
      else Some \<lparr>volume = Fin 0, jacobian = Fin 0, scaled_jacobian = Fin 0, shape = Fin 0\<rparr>)"
  by (simp add: v_pyramid_quality_def memset_zero_all Let_def split: option.splits)

text \<open>
  Claim C5.  Whatever the struct of the caller holds, \<^verbatim>\<open>v_pyramid_quality\<close> leaves it
  with every member 0 except the member of the first flag, in the order volume, Jacobian,
  scaled Jacobian, shape, that the request has a bit in common with; that member holds the
  metric, and no other metric is computed (a request for the volume returns even where the
  shape metric would not).  With no such flag every member is 0.  In particular, a request
  with bits of both the volume flag and the shape flag stores the volume and leaves the
  shape member 0.
\<close>

theorem quality_stores_first_match_only:
  "v_pyramid_quality ext num_nodes coordinates flag metric_vals =
     (if flag AND V_PYRAMID_VOLUME ext \<noteq> 0 then
        Some \<lparr>volume = Fin (v_pyramid_volume num_nodes coordinates), jacobian = Fin 0,
              scaled_jacobian = Fin 0, shape = Fin 0\<rparr>
      else if flag AND V_PYRAMID_JACOBIAN ext \<noteq> 0 then
        Some \<lparr>volume = Fin 0, jacobian = Fin (v_pyramid_jacobian ext num_nodes coordinates),
              scaled_jacobian = Fin 0, shape = Fin 0\<rparr>
      else if flag AND V_PYRAMID_SCALED_JACOBIAN ext \<noteq> 0 then
        Some \<lparr>volume = Fin 0, jacobian = Fin 0,
              scaled_jacobian = v_pyramid_scaled_jacobian ext num_nodes coordinates, shape = Fin 0\<rparr>
      else if flag AND V_PYRAMID_SHAPE ext \<noteq> 0 then
        map_option (\<lambda>s. \<lparr>volume = Fin 0, jacobian = Fin 0, scaled_jacobian = Fin 0, shape = s\<rparr>)
          (v_pyramid_shape ext num_nodes coordinates)
      else Some \<lparr>volume = Fin 0, jacobian = Fin 0, scaled_jacobian = Fin 0, shape = Fin 0\<rparr>) \<and>
   (flag AND V_PYRAMID_VOLUME ext \<noteq> 0 \<and> flag AND V_PYRAMID_SHAPE ext \<noteq> 0 \<longrightarrow>
      v_pyramid_quality ext num_nodes coordinates flag metric_vals =
        Some \<lparr>volume = Fin (v_pyramid_volume num_nodes coordinates), jacobian = Fin 0,
              scaled_jacobian = Fin 0, shape = Fin 0\<rparr>)"
  by (simp only: quality_cases [of ext num_nodes coordinates flag metric_vals] if_True simp_thms
      split: if_split) simp

lemma nine_flags:
  "(9 :: 32 word) AND V_PYRAMID_VOLUME example_externals \<noteq> 0"
  "(9 :: 32 word) AND V_PYRAMID_SHAPE example_externals \<noteq> 0"
  by (simp_all add: example_externals_def)

lemma rational_volume: "v_pyramid_volume 5 rational_pyramid = 16 / 3"
  by (simp add: rational_pyramid_def v_pyramid_volume_def set_xyz_def operator_percent_def Dot_def
        operator_times_def operator_times_assign_def Let_def)

theorem quality_stores_first_match_only_witness:
  "(9 :: 32 word) AND V_PYRAMID_VOLUME example_externals \<noteq> 0 \<and>
   (9 :: 32 word) AND V_PYRAMID_SHAPE example_externals \<noteq> 0 \<and>
   v_pyramid_quality example_externals 5 rational_pyramid 9
       \<lparr>volume = Fin 7, jacobian = NaN, scaled_jacobian = PInf, shape = Fin 1\<rparr> =
     Some \<lparr>volume = Fin (16 / 3), jacobian = Fin 0, scaled_jacobian = Fin 0, shape = Fin 0\<rparr>"
  using nine_flags
    quality_stores_first_match_only [of example_externals 5 rational_pyramid 9
      "\<lparr>volume = Fin 7, jacobian = NaN, scaled_jacobian = PInf, shape = Fin 1\<rparr>"]
  by (simp only: rational_volume simp_thms if_True)

end
